theory Spec2Isabelle
  imports Main "HOL-Library.Word" "HOL-Library.Multiset"
begin

section \<open>The to-do list script (script.js) as a state transformer\<close>

text \<open>
  The script keeps its state in module-level variables and in the page: the Firestore
  handle \<open>db\<close>, the signed-in \<open>userId\<close>, the value of the input field, the children
  of the task list, the message box, the timers it has started, the console, and (as a
  trace) the requests it has handed to the Firestore SDK. Every handler of the script is
  modelled as a function from the state before to the completion after.
\<close>

subsection \<open>JavaScript strings\<close>

text \<open>
  A JavaScript string is a sequence of 16-bit code units. \<open>js\<close> embeds an ASCII literal
  of the source.
\<close>

type_synonym jstring = "16 word list"

definition js :: "string \<Rightarrow> jstring" where
  "js lit = map (\<lambda>c. of_nat (of_char c)) lit"

text \<open>
  \<open>String.prototype.trim\<close> strips, on both ends, the code units of ECMAScript's
  WhiteSpace and LineTerminator productions.
\<close>

definition isWhiteSpace :: "16 word \<Rightarrow> bool" where
  "isWhiteSpace c =
     (c \<in> set [0x0009, 0x000A, 0x000B, 0x000C, 0x000D, 0x0020, 0x00A0, 0x1680,
               0x2000, 0x2001, 0x2002, 0x2003, 0x2004, 0x2005, 0x2006, 0x2007,
               0x2008, 0x2009, 0x200A, 0x2028, 0x2029, 0x202F, 0x205F, 0x3000, 0xFEFF])"

definition trim :: "jstring \<Rightarrow> jstring" where
  "trim str = rev (dropWhile isWhiteSpace (rev (dropWhile isWhiteSpace str)))"

text \<open>The decimal digits of a number, as a template literal prints \<open>tasks.length\<close>.\<close>

fun decimal :: "nat \<Rightarrow> jstring" where
  "decimal n =
     (if n < 10 then [of_nat (48 + n)]
      else decimal (n div 10) @ [of_nat (48 + n mod 10)])"

declare decimal.simps [simp del]

subsection \<open>Documents, tasks and list items\<close>

text \<open>
  A document of the tasks collection as a snapshot delivers it: its id and the data
  \<open>addTask\<close> writes, a text and a \<open>createdAt\<close> time stamp (milliseconds, an integer).
  The collection is written by \<open>addTask\<close> only, so every document has this shape.
\<close>

record document =
  doc_id :: jstring
  doc_text :: jstring
  doc_createdAt :: int

text \<open>The object \<open>{ id: doc.id, ...doc.data() }\<close> the snapshot handler builds.\<close>

record task =
  task_id :: jstring
  task_text :: jstring
  createdAt :: int

definition task_of :: "document \<Rightarrow> task" where
  "task_of d = \<lparr>task_id = doc_id d, task_text = doc_text d, createdAt = doc_createdAt d\<rparr>"

text \<open>
  The \<open>li\<close> element of a task and its Remove button. The button's click handler is a
  closure over the task: \<open>btn_onclick\<close> is the task id it has captured.
\<close>

record button =
  btn_textContent :: jstring
  btn_className :: jstring
  btn_onclick :: jstring

record li =
  data_doc_id :: jstring
  li_textContent :: jstring
  li_button :: button

definition createTaskElement :: "task \<Rightarrow> li" where
  "createTaskElement t =
     \<lparr>data_doc_id = task_id t,
      li_textContent = task_text t,
      li_button = \<lparr>btn_textContent = js ''Remove'',
                   btn_className = js ''remove-btn'',
                   btn_onclick = task_id t\<rparr>\<rparr>"

subsection \<open>The state\<close>

record message_box =
  textContent :: jstring
  backgroundColor :: jstring
  color :: jstring
  border :: jstring
  display :: jstring

datatype firestore = Firestore

datatype firebase_auth = Auth

datatype console_entry =
    ConsoleError jstring jstring
  | ConsoleWarn jstring

text \<open>
  The requests the script hands to the Firestore SDK: \<open>addDoc\<close> on a collection path
  with the text and time stamp of the new document, \<open>deleteDoc\<close> on a collection path
  and a document id, \<open>onSnapshot\<close> on the query of a collection path.
\<close>

datatype store_call =
    AddDoc jstring jstring int
  | DeleteDoc jstring jstring
  | OnSnapshot jstring

text \<open>
  The requests the script hands to the Auth SDK: the registration of its callback with
  \<open>onAuthStateChanged\<close> and the two ways of signing in.
\<close>

datatype auth_call =
    OnAuthStateChanged
  | SignInWithCustomToken jstring
  | SignInAnonymously

record state =
  appId :: jstring
  authToken :: "jstring option"
  db :: "firestore option"
  auth :: "firebase_auth option"
  userId :: "jstring option"
  isAuthReady :: bool
  taskInput :: jstring
  taskList :: "li list"
  messageBox :: "message_box option"
  userIdDisplay :: "jstring option"
  listenersAttached :: bool
  timeouts :: "nat list"
  console :: "console_entry list"
  calls :: "store_call list"
  authCalls :: "auth_call list"

text \<open>
  \<open>taskInput\<close> is the value of the input field, \<open>taskList\<close> the children of the list
  element that carry a handler of the script, \<open>messageBox\<close> and \<open>userIdDisplay\<close> (its
  \<open>innerHTML\<close>) are undefined until the script has created the elements,
  \<open>listenersAttached\<close> says that the click and keypress listeners of the Add button and
  the input field are in place, \<open>timeouts\<close> are the delays of the timers started with
  \<open>setTimeout\<close>. The elements the script looks up in the page (\<open>add-task-btn\<close>,
  \<open>task-input\<close>, \<open>task-list\<close>, \<open>todo-app\<close> and its \<open>h1\<close>) are taken to exist.

  A handler either returns or throws; both leave a state behind. An \<open>async\<close> handler
  that throws rejects its promise.
\<close>

datatype js_error = TypeError

datatype completion = Returned state | Thrown js_error state

fun state_of :: "completion \<Rightarrow> state" where
  "state_of (Returned s) = s"
| "state_of (Thrown e s) = s"

text \<open>The promise of a store request settles in one of two ways.\<close>

datatype response = Resolved | Rejected jstring

text \<open>
  An \<open>async\<close> handler runs until it completes or until it waits for a request it has
  just made; other handlers may run before it is resumed.
\<close>

datatype step = Done completion | Await state

subsection \<open>showMessage\<close>

definition showMessage :: "state \<Rightarrow> jstring \<Rightarrow> bool \<Rightarrow> completion" where
  "showMessage s txt isError =
     (case messageBox s of
        None \<Rightarrow> Thrown TypeError s
      | Some mb \<Rightarrow>
          Returned (s\<lparr>messageBox := Some
              (if isError
               then mb\<lparr>textContent := txt,
                       backgroundColor := js ''#f8d7da'',
                       color := js ''#721c24'',
                       border := js ''1px solid #f5c6cb'',
                       display := js ''block''\<rparr>
               else mb\<lparr>textContent := txt,
                       backgroundColor := js ''#d4edda'',
                       color := js ''#155724'',
                       border := js ''1px solid #c3e6cb'',
                       display := js ''block''\<rparr>),
            timeouts := timeouts s @ [3000]\<rparr>))"

subsection \<open>The guard and the collection path\<close>

text \<open>The test \<open>!db || !userId\<close>: an undefined handle, a null or an empty user id.\<close>

definition not_ready :: "state \<Rightarrow> bool" where
  "not_ready s = (db s = None \<or> userId s = None \<or> userId s = Some [])"

text \<open>
  The template literal \<open>artifacts/${appId}/users/${userId}/tasks\<close>. The script builds
  its references with \<open>collection\<close>, \<open>doc\<close> and \<open>query\<close>, which send nothing to the
  store; they are taken to return the reference of the path.
\<close>

definition tasksPath :: "state \<Rightarrow> jstring" where
  "tasksPath s =
     js ''artifacts/'' @ appId s @ js ''/users/'' @
     (case userId s of None \<Rightarrow> js ''null'' | Some u \<Rightarrow> u) @ js ''/tasks''"

subsection \<open>The click handler of a Remove button\<close>

definition removeButton_onclick_begin :: "state \<Rightarrow> jstring \<Rightarrow> step" where
  "removeButton_onclick_begin s tid =
     (if not_ready s
      then Done (showMessage s (js ''Database is not ready. Please wait.'') True)
      else Await (s\<lparr>calls := calls s @ [DeleteDoc (tasksPath s) tid]\<rparr>))"

definition removeButton_onclick_resume :: "state \<Rightarrow> response \<Rightarrow> completion" where
  "removeButton_onclick_resume s r =
     (case r of
        Resolved \<Rightarrow> Returned s
      | Rejected e \<Rightarrow>
          showMessage
            (s\<lparr>console := console s @ [ConsoleError (js ''Error removing document: '') e]\<rparr>)
            (js ''Failed to remove task. Check console for details.'') True)"

definition removeButton_onclick :: "state \<Rightarrow> jstring \<Rightarrow> response \<Rightarrow> completion" where
  "removeButton_onclick s tid r =
     (case removeButton_onclick_begin s tid of
        Done c \<Rightarrow> c
      | Await s' \<Rightarrow> removeButton_onclick_resume s' r)"

subsection \<open>addTask\<close>

text \<open>\<open>now\<close> is the value \<open>Date.now()\<close> returns when the request is built.\<close>

definition addTask_begin :: "state \<Rightarrow> int \<Rightarrow> step" where
  "addTask_begin s now =
     (let taskText = trim (taskInput s) in
      if taskText = [] then Done (showMessage s (js ''Please enter a task.'') True)
      else if not_ready s
      then Done (showMessage s (js ''Database is not ready. Please wait.'') True)
      else Await (s\<lparr>calls := calls s @ [AddDoc (tasksPath s) taskText now]\<rparr>))"

definition addTask_resume :: "state \<Rightarrow> response \<Rightarrow> completion" where
  "addTask_resume s r =
     (case r of
        Resolved \<Rightarrow> Returned (s\<lparr>taskInput := []\<rparr>)
      | Rejected e \<Rightarrow>
          showMessage
            (s\<lparr>console := console s @ [ConsoleError (js ''Error adding document: '') e]\<rparr>)
            (js ''Failed to add task. Check console for details.'') True)"

definition addTask :: "state \<Rightarrow> int \<Rightarrow> response \<Rightarrow> completion" where
  "addTask s now r =
     (case addTask_begin s now of
        Done c \<Rightarrow> c
      | Await s' \<Rightarrow> addTask_resume s' r)"

subsection \<open>setupRealtimeListener and its two callbacks\<close>

text \<open>
  The first callback of \<open>onSnapshot\<close> receives a snapshot, the documents in the order
  \<open>snapshot.forEach\<close> visits them. \<open>Array.prototype.sort\<close> is stable, and so is
  \<open>sort_key\<close>.
\<close>

definition onSnapshot_next :: "state \<Rightarrow> document list \<Rightarrow> completion" where
  "onSnapshot_next s snapshot =
     (let tasks = sort_key createdAt (map task_of snapshot) in
      showMessage
        (s\<lparr>taskList := map createTaskElement tasks\<rparr>)
        (js ''Loaded '' @ decimal (length tasks) @ js '' tasks from the database.'')
        False)"

definition onSnapshot_error :: "state \<Rightarrow> jstring \<Rightarrow> completion" where
  "onSnapshot_error s e =
     showMessage
       (s\<lparr>console := console s @ [ConsoleError (js ''Firestore real-time error:'') e]\<rparr>)
       (js ''Failed to load tasks in real-time.'') True"

definition setupRealtimeListener :: "state \<Rightarrow> state" where
  "setupRealtimeListener s =
     (if not_ready s
      then s\<lparr>console := console s @
             [ConsoleWarn (js ''Real-time listener skipped: DB or User ID not available.'')]\<rparr>
      else s\<lparr>calls := calls s @ [OnSnapshot (tasksPath s)]\<rparr>)"

subsection \<open>The timer of showMessage\<close>

text \<open>The callback \<open>showMessage\<close> hands to \<open>setTimeout\<close> hides the box again.\<close>

definition onTimeout :: "state \<Rightarrow> completion" where
  "onTimeout s =
     (case messageBox s of
        None \<Rightarrow> Thrown TypeError s
      | Some mb \<Rightarrow> Returned (s\<lparr>messageBox := Some (mb\<lparr>display := js ''none''\<rparr>)\<rparr>))"

subsection \<open>initializeAppAndAuth and the DOMContentLoaded listener\<close>

text \<open>
  The three calls into the SDK at the head of \<open>initializeAppAndAuth\<close> either all return
  or one of them throws; which, is the SDK's answer to the configuration of the page.
\<close>

datatype sdk_init =
    InitOk
  | InitializeAppThrows jstring
  | GetFirestoreThrows jstring
  | GetAuthThrows jstring

text \<open>
  The \<open>div\<close> the script creates for its messages, \<open>style.display\<close> set to none. The
  ids the script gives to this element and to the status line, and the place where it
  inserts them after the heading, are not part of the state.
\<close>

definition new_box :: message_box where
  "new_box =
     \<lparr>textContent = [], backgroundColor = [], color = [], border = [],
      display = js ''none''\<rparr>"

text \<open>The \<open>catch\<close> block of \<open>initializeAppAndAuth\<close>.\<close>

definition initializeAppAndAuth_catch :: "state \<Rightarrow> jstring \<Rightarrow> completion" where
  "initializeAppAndAuth_catch s e =
     showMessage
       (s\<lparr>console := console s @ [ConsoleError (js ''Firebase Initialization Error:'') e]\<rparr>)
       (js ''Application failed to initialize. Check console.'') True"

definition initializeAppAndAuth :: "state \<Rightarrow> sdk_init \<Rightarrow> completion" where
  "initializeAppAndAuth s r =
     (case r of
        InitializeAppThrows e \<Rightarrow> initializeAppAndAuth_catch s e
      | GetFirestoreThrows e \<Rightarrow> initializeAppAndAuth_catch s e
      | GetAuthThrows e \<Rightarrow> initializeAppAndAuth_catch (s\<lparr>db := Some Firestore\<rparr>) e
      | InitOk \<Rightarrow>
          Returned (s\<lparr>db := Some Firestore,
                      auth := Some Auth,
                      messageBox := Some new_box,
                      userIdDisplay := Some (js ''Status: Initializing...''),
                      authCalls := authCalls s @ [OnAuthStateChanged]\<rparr>))"

text \<open>
  The listener of \<open>DOMContentLoaded\<close> calls \<open>initializeAppAndAuth\<close>, an \<open>async\<close>
  function: what it throws rejects its promise and does not stop the listener, which
  goes on to attach \<open>addTask\<close> to the Add button and to the Enter key.
\<close>

definition onDOMContentLoaded :: "state \<Rightarrow> sdk_init \<Rightarrow> state" where
  "onDOMContentLoaded s r = (state_of (initializeAppAndAuth s r))\<lparr>listenersAttached := True\<rparr>"

subsection \<open>The callback of onAuthStateChanged\<close>

text \<open>
  The callback receives a user, here the \<open>uid\<close> of it, or null. With a user it records
  the id and sets the listener up. Without one it signs in, with the token of the page
  when there is one, and waits; when the sign-in is rejected it reports the failure and
  does nothing else.
\<close>

definition onAuthStateChanged_begin :: "state \<Rightarrow> jstring option \<Rightarrow> step" where
  "onAuthStateChanged_begin s user =
     (case user of
        Some uid \<Rightarrow>
          (case userIdDisplay s of
             None \<Rightarrow> Done (Thrown TypeError (s\<lparr>userId := Some uid\<rparr>))
           | Some old \<Rightarrow>
               Done (Returned (setupRealtimeListener
                 (s\<lparr>userId := Some uid,
                    userIdDisplay := Some (js ''User ID: <strong>'' @ uid @ js ''</strong>''),
                    isAuthReady := True\<rparr>))))
      | None \<Rightarrow>
          (if authToken s = None \<or> authToken s = Some []
           then Await (s\<lparr>authCalls := authCalls s @ [SignInAnonymously]\<rparr>)
           else Await (s\<lparr>authCalls := authCalls s @
                  [SignInWithCustomToken (case authToken s of None \<Rightarrow> [] | Some t \<Rightarrow> t)]\<rparr>)))"

definition onAuthStateChanged_resume :: "state \<Rightarrow> response \<Rightarrow> completion" where
  "onAuthStateChanged_resume s r =
     (case r of
        Resolved \<Rightarrow> Returned s
      | Rejected e \<Rightarrow>
          (case userIdDisplay s of
             None \<Rightarrow>
               Thrown TypeError
                 (s\<lparr>console := console s @ [ConsoleError (js ''Firebase Auth Error:'') e]\<rparr>)
           | Some old \<Rightarrow>
               showMessage
                 (s\<lparr>console := console s @ [ConsoleError (js ''Firebase Auth Error:'') e],
                    userIdDisplay := Some (js ''Status: Authentication Failed!'')\<rparr>)
                 (js ''Authentication failed. Cannot load tasks.'') True))"

subsection \<open>The page as a transition system\<close>

text \<open>
  What can happen to the page: the document is loaded; the user types, asks for an
  addition (a click on Add or the Enter key, at a clock reading) or clicks the Remove
  button of a list item; the identity provider calls back; a promise of the SDK
  settles; the store delivers a snapshot or an error to the listener; a timer fires.
\<close>

datatype event =
    Load sdk_init
  | Typed jstring
  | AddRequested int
  | AddSettled response
  | RemoveClicked nat
  | RemoveSettled response
  | AuthState "jstring option"
  | SignInSettled response
  | Snapshot "document list"
  | SnapshotFailed jstring
  | TimerFired

fun is_OnSnapshot :: "store_call \<Rightarrow> bool" where
  "is_OnSnapshot (OnSnapshot p) = True"
| "is_OnSnapshot (AddDoc p txt t) = False"
| "is_OnSnapshot (DeleteDoc p i) = False"

text \<open>A listener is registered: \<open>onSnapshot\<close> has been called.\<close>

definition listening :: "state \<Rightarrow> bool" where
  "listening s = list_ex is_OnSnapshot (calls s)"

text \<open>The callback of the identity provider is registered.\<close>

definition authRegistered :: "state \<Rightarrow> bool" where
  "authRegistered s = (OnAuthStateChanged \<in> set (authCalls s))"

fun is_AuthState :: "event \<Rightarrow> bool" where
  "is_AuthState (AuthState user) = True"
| "is_AuthState ev = False"

fun is_SignIn :: "auth_call \<Rightarrow> bool" where
  "is_SignIn OnAuthStateChanged = False"
| "is_SignIn (SignInWithCustomToken tok) = True"
| "is_SignIn SignInAnonymously = True"

text \<open>
  \<open>fire\<close> runs the handler of an event, and is \<open>None\<close> when the event cannot happen: the
  document is loaded once; \<open>addTask\<close> runs once its listeners are attached; a Remove
  button is clicked where there is one; the callback of the identity provider runs once
  it is registered, and the user it receives has a \<open>uid\<close> that is not empty; a snapshot
  or an error of the listener arrives once \<open>onSnapshot\<close> has been called; a timer fires
  when one has been started. The second half of an \<open>async\<close> handler may run whenever
  the first half may have run before; the function does not count the requests that
  are under way, which allows more runs than the page has and none fewer. A handler
  that throws leaves the state it had reached.
\<close>

fun fire :: "state \<Rightarrow> event \<Rightarrow> state option" where
  "fire s (Load r) =
     (if listenersAttached s then None else Some (onDOMContentLoaded s r))"
| "fire s (Typed v) = Some (s\<lparr>taskInput := v\<rparr>)"
| "fire s (AddRequested now) =
     (if listenersAttached s
      then Some (case addTask_begin s now of Done c \<Rightarrow> state_of c | Await s' \<Rightarrow> s')
      else None)"
| "fire s (AddSettled r) =
     (if listenersAttached s then Some (state_of (addTask_resume s r)) else None)"
| "fire s (RemoveClicked i) =
     (if i < length (taskList s)
      then Some (case removeButton_onclick_begin s (btn_onclick (li_button (taskList s ! i))) of
                   Done c \<Rightarrow> state_of c | Await s' \<Rightarrow> s')
      else None)"
| "fire s (RemoveSettled r) =
     (if listening s then Some (state_of (removeButton_onclick_resume s r)) else None)"
| "fire s (AuthState user) =
     (if authRegistered s \<and> user \<noteq> Some []
      then Some (case onAuthStateChanged_begin s user of Done c \<Rightarrow> state_of c | Await s' \<Rightarrow> s')
      else None)"
| "fire s (SignInSettled r) =
     (if authRegistered s then Some (state_of (onAuthStateChanged_resume s r)) else None)"
| "fire s (Snapshot snapshot) =
     (if listening s then Some (state_of (onSnapshot_next s snapshot)) else None)"
| "fire s (SnapshotFailed e) =
     (if listening s then Some (state_of (onSnapshot_error s e)) else None)"
| "fire s TimerFired =
     (case timeouts s of
        [] \<Rightarrow> None
      | t # ts \<Rightarrow> Some (state_of (onTimeout (s\<lparr>timeouts := ts\<rparr>))))"

fun run :: "state \<Rightarrow> event list \<Rightarrow> state option" where
  "run s [] = Some s"
| "run s (ev # evs) = (case fire s ev of None \<Rightarrow> None | Some s' \<Rightarrow> run s' evs)"

text \<open>
  The page before the document is loaded: the variables of the module as they are
  declared, an empty list, nothing on the console, nothing asked of the SDK. The
  application id, the token and the content of the input field are whatever they are.
\<close>

definition initial :: "state \<Rightarrow> bool" where
  "initial s =
     (db s = None \<and> auth s = None \<and> userId s = None \<and> \<not> isAuthReady s \<and>
      taskList s = [] \<and> messageBox s = None \<and> userIdDisplay s = None \<and>
      \<not> listenersAttached s \<and> timeouts s = [] \<and> console s = [] \<and>
      calls s = [] \<and> authCalls s = [])"

text \<open>
  What holds of every state the page can reach: before the document is loaded nothing
  has been set or asked for; the callback of the identity provider is registered only
  after the handle, the message box and the status line exist; a user id is there only
  once that callback is registered, and it is not empty; a listener is registered only
  when the store is ready; and a list item exists only when a listener is registered.
\<close>

definition page_inv :: "state \<Rightarrow> bool" where
  "page_inv s =
     ((listenersAttached s \<or>
        (userId s = None \<and> taskList s = [] \<and> \<not> listening s \<and> authCalls s = []))
      \<and> (authRegistered s \<longrightarrow> db s \<noteq> None \<and> messageBox s \<noteq> None \<and> userIdDisplay s \<noteq> None)
      \<and> (userId s \<noteq> None \<longrightarrow> authRegistered s \<and> userId s \<noteq> Some [])
      \<and> (listening s \<longrightarrow> \<not> not_ready s)
      \<and> (taskList s \<noteq> [] \<longrightarrow> listening s))"

text \<open>Two states agree in what the invariant reads, the task list apart.\<close>

definition same_base :: "state \<Rightarrow> state \<Rightarrow> bool" where
  "same_base s s' =
     (db s' = db s \<and> userId s' = userId s \<and> authCalls s' = authCalls s \<and>
      listening s' = listening s \<and> listenersAttached s' = listenersAttached s \<and>
      (messageBox s' = None) = (messageBox s = None) \<and>
      (userIdDisplay s' = None) = (userIdDisplay s = None))"

subsection \<open>Sequences of additions\<close>

text \<open>
  The user types a text and triggers \<open>addTask\<close>, again and again: each entry gives the
  text typed, the value of \<open>Date.now()\<close> at that moment and the way the store's promise
  settles. \<open>created\<close> reads the documents written off the trace of requests.
\<close>

fun addTasks :: "state \<Rightarrow> (jstring \<times> int \<times> response) list \<Rightarrow> state" where
  "addTasks s [] = s"
| "addTasks s ((inp, now, r) # es) =
     addTasks (state_of (addTask (s\<lparr>taskInput := inp\<rparr>) now r)) es"

fun created :: "store_call list \<Rightarrow> (jstring \<times> int) list" where
  "created [] = []"
| "created (AddDoc p txt t # cs) = (txt, t) # created cs"
| "created (DeleteDoc p i # cs) = created cs"
| "created (OnSnapshot p # cs) = created cs"

subsection \<open>What the message box shows\<close>

text \<open>
  The two branches of \<open>showMessage\<close> differ in the colours they set: the box is visible
  with a text in the error style, or in the success style.
\<close>

definition displays_error :: "state \<Rightarrow> jstring \<Rightarrow> bool" where
  "displays_error s txt =
     (case messageBox s of
        None \<Rightarrow> False
      | Some mb \<Rightarrow>
          textContent mb = txt \<and> backgroundColor mb = js ''#f8d7da'' \<and>
          display mb = js ''block'')"



subsection \<open>Example states\<close>

text \<open>
  The page once the script has set itself up and before a user is signed in, and the
  same page with the user id of \<open>u1\<close>.
\<close>

definition hidden_box :: message_box where
  "hidden_box =
     \<lparr>textContent = [], backgroundColor = [], color = [], border = [],
      display = js ''none''\<rparr>"

definition signed_out :: state where
  "signed_out =
     \<lparr>appId = js ''default-app-id'', authToken = None, db = Some Firestore,
      auth = Some Auth, userId = None, isAuthReady = False,
      taskInput = [], taskList = [], messageBox = Some hidden_box,
      userIdDisplay = Some (js ''Status: Initializing...''), listenersAttached = True,
      timeouts = [], console = [], calls = [], authCalls = [OnAuthStateChanged]\<rparr>"

definition signed_in :: state where
  "signed_in = signed_out\<lparr>userId := Some (js ''u1'')\<rparr>"

text \<open>
  The page before its document is loaded, with the default application id and no
  token; the same page after an initialisation in which \<open>getFirestore\<close> threw.
\<close>

definition page :: state where
  "page =
     \<lparr>appId = js ''default-app-id'', authToken = None, db = None,
      auth = None, userId = None, isAuthReady = False,
      taskInput = [], taskList = [], messageBox = None,
      userIdDisplay = None, listenersAttached = False,
      timeouts = [], console = [], calls = [], authCalls = []\<rparr>"

definition init_failed :: state where
  "init_failed =
     page\<lparr>listenersAttached := True,
          console := [ConsoleError (js ''Firebase Initialization Error:'')
                        (js ''projectId not provided'')]\<rparr>"

text \<open>
  The page after it has loaded, signed user \<open>u1\<close> in and received a snapshot with one
  document; and the page after it has loaded and its anonymous sign-in was rejected.
\<close>

definition listed :: state where
  "listed =
     signed_out
       \<lparr>userId := Some (js ''u1''),
        isAuthReady := True,
        userIdDisplay := Some (js ''User ID: <strong>u1</strong>''),
        calls := [OnSnapshot (js ''artifacts/default-app-id/users/u1/tasks'')],
        taskList :=
          [\<lparr>data_doc_id = js ''t1'', li_textContent = js ''buy milk'',
            li_button = \<lparr>btn_textContent = js ''Remove'', btn_className = js ''remove-btn'',
                         btn_onclick = js ''t1''\<rparr>\<rparr>],
        messageBox := Some
          \<lparr>textContent = js ''Loaded 1 tasks from the database.'',
           backgroundColor = js ''#d4edda'', color = js ''#155724'',
           border = js ''1px solid #c3e6cb'', display = js ''block''\<rparr>,
        timeouts := [3000]\<rparr>"


section \<open>Basic facts\<close>

lemma showMessage_frame:
  "taskList (state_of (showMessage s txt isError)) = taskList s"
  "taskInput (state_of (showMessage s txt isError)) = taskInput s"
  "calls (state_of (showMessage s txt isError)) = calls s"
  "console (state_of (showMessage s txt isError)) = console s"
  "db (state_of (showMessage s txt isError)) = db s"
  "userId (state_of (showMessage s txt isError)) = userId s"
  "appId (state_of (showMessage s txt isError)) = appId s"
  by (simp_all add: showMessage_def split: option.split)

lemma showMessage_error_shown:
  "messageBox s = Some mb \<Longrightarrow>
   \<exists>s'. showMessage s txt True = Returned s' \<and> displays_error s' txt"
  by (simp add: showMessage_def displays_error_def)


lemma addTask_blank:
  "trim (taskInput s) = [] \<Longrightarrow>
   addTask s now r = showMessage s (js ''Please enter a task.'') True"
  by (simp add: addTask_def addTask_begin_def)

lemma addTask_not_ready:
  "trim (taskInput s) \<noteq> [] \<Longrightarrow> not_ready s \<Longrightarrow>
   addTask s now r = showMessage s (js ''Database is not ready. Please wait.'') True"
  by (simp add: addTask_def addTask_begin_def)

lemma addTask_resolved:
  "trim (taskInput s) \<noteq> [] \<Longrightarrow> \<not> not_ready s \<Longrightarrow>
   addTask s now Resolved =
     Returned (s\<lparr>calls := calls s @ [AddDoc (tasksPath s) (trim (taskInput s)) now],
                taskInput := []\<rparr>)"
  by (simp add: addTask_def addTask_begin_def addTask_resume_def)

lemma addTask_rejected:
  "trim (taskInput s) \<noteq> [] \<Longrightarrow> \<not> not_ready s \<Longrightarrow>
   addTask s now (Rejected e) =
     showMessage
       (s\<lparr>calls := calls s @ [AddDoc (tasksPath s) (trim (taskInput s)) now],
          console := console s @ [ConsoleError (js ''Error adding document: '') e]\<rparr>)
       (js ''Failed to add task. Check console for details.'') True"
  by (simp add: addTask_def addTask_begin_def addTask_resume_def)

lemma taskList_addTask: "taskList (state_of (addTask s now r)) = taskList s"
  by (cases r) (simp_all add: addTask_def addTask_begin_def addTask_resume_def Let_def showMessage_frame)

lemma calls_addTask:
  "calls (state_of (addTask s now r)) =
     (if trim (taskInput s) = [] \<or> not_ready s then calls s
      else calls s @ [AddDoc (tasksPath s) (trim (taskInput s)) now])"
  by (cases r) (simp_all add: addTask_def addTask_begin_def addTask_resume_def Let_def showMessage_frame)

lemma taskInput_addTask:
  "taskInput (state_of (addTask s now r)) =
     (if trim (taskInput s) \<noteq> [] \<and> \<not> not_ready s \<and> r = Resolved then [] else taskInput s)"
  by (cases r) (simp_all add: addTask_def addTask_begin_def addTask_resume_def Let_def showMessage_frame)

lemma removeButton_onclick_not_ready:
  "not_ready s \<Longrightarrow>
   removeButton_onclick s tid r = showMessage s (js ''Database is not ready. Please wait.'') True"
  by (simp add: removeButton_onclick_def removeButton_onclick_begin_def)

lemma removeButton_onclick_resolved:
  "\<not> not_ready s \<Longrightarrow>
   removeButton_onclick s tid Resolved =
     Returned (s\<lparr>calls := calls s @ [DeleteDoc (tasksPath s) tid]\<rparr>)"
  by (simp add: removeButton_onclick_def removeButton_onclick_begin_def
      removeButton_onclick_resume_def)

lemma removeButton_onclick_rejected:
  "\<not> not_ready s \<Longrightarrow>
   removeButton_onclick s tid (Rejected e) =
     showMessage
       (s\<lparr>calls := calls s @ [DeleteDoc (tasksPath s) tid],
          console := console s @ [ConsoleError (js ''Error removing document: '') e]\<rparr>)
       (js ''Failed to remove task. Check console for details.'') True"
  by (simp add: removeButton_onclick_def removeButton_onclick_begin_def
      removeButton_onclick_resume_def)

lemma taskList_removeButton_onclick:
  "taskList (state_of (removeButton_onclick s tid r)) = taskList s"
  by (cases r) (simp_all add: removeButton_onclick_def removeButton_onclick_begin_def
      removeButton_onclick_resume_def showMessage_frame)

lemma calls_removeButton_onclick:
  "calls (state_of (removeButton_onclick s tid r)) =
     (if not_ready s then calls s else calls s @ [DeleteDoc (tasksPath s) tid])"
  by (cases r) (simp_all add: removeButton_onclick_def removeButton_onclick_begin_def
      removeButton_onclick_resume_def showMessage_frame)

lemma taskList_onSnapshot_next:
  "taskList (state_of (onSnapshot_next s snapshot)) =
     map createTaskElement (sort_key createdAt (map task_of snapshot))"
  by (simp add: onSnapshot_next_def Let_def showMessage_frame)

lemma showMessage_frame2:
  "auth (state_of (showMessage s msg isError)) = auth s"
  "authCalls (state_of (showMessage s msg isError)) = authCalls s"
  "authToken (state_of (showMessage s msg isError)) = authToken s"
  "userIdDisplay (state_of (showMessage s msg isError)) = userIdDisplay s"
  "listenersAttached (state_of (showMessage s msg isError)) = listenersAttached s"
  "isAuthReady (state_of (showMessage s msg isError)) = isAuthReady s"
  by (simp_all add: showMessage_def split: option.split)

subsection \<open>The invariant of the page\<close>

lemma page_inv_same_base:
  "page_inv s \<Longrightarrow> same_base s s' \<Longrightarrow> taskList s' = taskList s \<or> listening s \<Longrightarrow> page_inv s'"
  unfolding page_inv_def same_base_def authRegistered_def not_ready_def
  by auto

lemma same_base_refl: "same_base s s"
  by (simp add: same_base_def)

lemma same_base_showMessage: "same_base s (state_of (showMessage s msg isError))"
  by (simp add: same_base_def listening_def showMessage_def split: option.split)

lemma same_base_trans: "same_base s t \<Longrightarrow> same_base t u \<Longrightarrow> same_base s u"
  unfolding same_base_def by auto

lemma same_base_addTask_begin:
  "same_base s (case addTask_begin s now of Done c \<Rightarrow> state_of c | Await s' \<Rightarrow> s')"
  by (simp add: addTask_begin_def Let_def same_base_showMessage)
    (simp add: same_base_def listening_def)

lemma same_base_addTask_resume: "same_base s (state_of (addTask_resume s r))"
proof (cases r)
  case Resolved
  then show ?thesis
    by (simp add: addTask_resume_def same_base_def listening_def)
next
  case (Rejected e)
  let ?t = "s\<lparr>console := console s @ [ConsoleError (js ''Error adding document: '') e]\<rparr>"
  have "same_base s ?t"
    by (simp add: same_base_def listening_def)
  from same_base_trans [OF this same_base_showMessage] Rejected show ?thesis
    by (simp add: addTask_resume_def)
qed

lemma same_base_removeButton_onclick_begin:
  "same_base s
     (case removeButton_onclick_begin s tid of Done c \<Rightarrow> state_of c | Await s' \<Rightarrow> s')"
  by (simp add: removeButton_onclick_begin_def same_base_showMessage)
    (simp add: same_base_def listening_def)

lemma same_base_removeButton_onclick_resume:
  "same_base s (state_of (removeButton_onclick_resume s r))"
proof (cases r)
  case Resolved
  then show ?thesis
    by (simp add: removeButton_onclick_resume_def same_base_refl)
next
  case (Rejected e)
  let ?t = "s\<lparr>console := console s @ [ConsoleError (js ''Error removing document: '') e]\<rparr>"
  have "same_base s ?t"
    by (simp add: same_base_def listening_def)
  from same_base_trans [OF this same_base_showMessage] Rejected show ?thesis
    by (simp add: removeButton_onclick_resume_def)
qed

lemma same_base_onSnapshot_next: "same_base s (state_of (onSnapshot_next s snapshot))"
proof -
  let ?t = "s\<lparr>taskList := map createTaskElement (sort_key createdAt (map task_of snapshot))\<rparr>"
  have "same_base s ?t"
    by (simp add: same_base_def listening_def)
  from same_base_trans [OF this same_base_showMessage] show ?thesis
    by (simp add: onSnapshot_next_def Let_def)
qed

lemma same_base_onSnapshot_error: "same_base s (state_of (onSnapshot_error s e))"
proof -
  let ?t = "s\<lparr>console := console s @ [ConsoleError (js ''Firestore real-time error:'') e]\<rparr>"
  have "same_base s ?t"
    by (simp add: same_base_def listening_def)
  from same_base_trans [OF this same_base_showMessage] show ?thesis
    by (simp add: onSnapshot_error_def)
qed

lemma same_base_onTimeout: "same_base s (state_of (onTimeout (s\<lparr>timeouts := ts\<rparr>)))"
  by (simp add: onTimeout_def same_base_def listening_def split: option.split)

lemma same_base_onAuthStateChanged_resume:
  "same_base s (state_of (onAuthStateChanged_resume s r))"
proof (cases r)
  case Resolved
  then show ?thesis
    by (simp add: onAuthStateChanged_resume_def same_base_refl)
next
  case (Rejected e)
  show ?thesis
  proof (cases "userIdDisplay s")
    case None
    with Rejected show ?thesis
      by (simp add: onAuthStateChanged_resume_def same_base_def listening_def)
  next
    case (Some old)
    let ?t = "s\<lparr>console := console s @ [ConsoleError (js ''Firebase Auth Error:'') e],
                 userIdDisplay := Some (js ''Status: Authentication Failed!'')\<rparr>"
    have "same_base s ?t"
      using Some by (simp add: same_base_def listening_def)
    from same_base_trans [OF this same_base_showMessage] Rejected Some show ?thesis
      by (simp add: onAuthStateChanged_resume_def)
  qed
qed

lemma taskList_addTask_begin:
  "taskList (case addTask_begin s now of Done c \<Rightarrow> state_of c | Await s' \<Rightarrow> s') = taskList s"
  by (simp add: addTask_begin_def Let_def showMessage_frame)

lemma taskList_addTask_resume: "taskList (state_of (addTask_resume s r)) = taskList s"
  by (cases r) (simp_all add: addTask_resume_def showMessage_frame)

lemma taskList_removeButton_onclick_begin:
  "taskList (case removeButton_onclick_begin s tid of Done c \<Rightarrow> state_of c | Await s' \<Rightarrow> s') =
   taskList s"
  by (simp add: removeButton_onclick_begin_def showMessage_frame)

lemma taskList_removeButton_onclick_resume:
  "taskList (state_of (removeButton_onclick_resume s r)) = taskList s"
  by (cases r) (simp_all add: removeButton_onclick_resume_def showMessage_frame)

lemma taskList_onSnapshot_error: "taskList (state_of (onSnapshot_error s e)) = taskList s"
  by (simp add: onSnapshot_error_def showMessage_frame)

lemma taskList_onTimeout: "taskList (state_of (onTimeout (s\<lparr>timeouts := ts\<rparr>))) = taskList s"
  by (simp add: onTimeout_def split: option.split)

lemma taskList_onAuthStateChanged_resume:
  "taskList (state_of (onAuthStateChanged_resume s r)) = taskList s"
  by (cases r) (simp_all add: onAuthStateChanged_resume_def showMessage_frame split: option.split)

lemma page_inv_attach: "page_inv s \<Longrightarrow> page_inv (s\<lparr>listenersAttached := True\<rparr>)"
  by (simp add: page_inv_def authRegistered_def listening_def not_ready_def)

lemma onDOMContentLoaded_attach_first:
  "onDOMContentLoaded s r = state_of (initializeAppAndAuth (s\<lparr>listenersAttached := True\<rparr>) r)"
  by (cases r)
    (simp_all add: onDOMContentLoaded_def initializeAppAndAuth_def
      initializeAppAndAuth_catch_def showMessage_def split: option.split)

lemma page_inv_initializeAppAndAuth:
  assumes "page_inv s" and "listenersAttached s"
    and fresh: "userId s = None" "taskList s = []" "\<not> listening s" "authCalls s = []"
  shows "page_inv (state_of (initializeAppAndAuth s r))"
proof -
  have failed: "page_inv (state_of (initializeAppAndAuth_catch t e))"
    if "page_inv t" for t e
  proof -
    let ?t = "t\<lparr>console := console t @
      [ConsoleError (js ''Firebase Initialization Error:'') e]\<rparr>"
    have "same_base t ?t" "taskList ?t = taskList t"
      by (simp_all add: same_base_def listening_def)
    with that have "page_inv ?t"
      by (auto intro: page_inv_same_base)
    moreover have "taskList (state_of (showMessage ?t msg True)) = taskList ?t" for msg
      by (simp add: showMessage_frame)
    ultimately show ?thesis
      unfolding initializeAppAndAuth_catch_def
      by (auto intro: page_inv_same_base same_base_showMessage)
  qed
  have with_db: "page_inv (s\<lparr>db := Some Firestore\<rparr>)"
    using assms(1) fresh
    by (simp add: page_inv_def authRegistered_def listening_def not_ready_def)
  show ?thesis
  proof (cases r)
    case InitOk
    with fresh assms(2) show ?thesis
      by (simp add: initializeAppAndAuth_def page_inv_def authRegistered_def listening_def
          not_ready_def)
  next
    case (InitializeAppThrows e)
    with failed [OF assms(1)] show ?thesis
      by (simp add: initializeAppAndAuth_def)
  next
    case (GetFirestoreThrows e)
    with failed [OF assms(1)] show ?thesis
      by (simp add: initializeAppAndAuth_def)
  next
    case (GetAuthThrows e)
    with failed [OF with_db] show ?thesis
      by (simp add: initializeAppAndAuth_def)
  qed
qed

lemma page_inv_onDOMContentLoaded:
  assumes "page_inv s" and "\<not> listenersAttached s"
  shows "page_inv (onDOMContentLoaded s r)"
proof -
  let ?s = "s\<lparr>listenersAttached := True\<rparr>"
  from assms have "userId ?s = None" "taskList ?s = []" "\<not> listening ?s" "authCalls ?s = []"
    by (auto simp: page_inv_def listening_def)
  with page_inv_attach [OF assms(1)] show ?thesis
    unfolding onDOMContentLoaded_attach_first
    by (intro page_inv_initializeAppAndAuth) simp_all
qed

lemma page_inv_onAuthStateChanged_begin:
  assumes "page_inv s" and "authRegistered s" and "user \<noteq> Some []"
  shows "page_inv (case onAuthStateChanged_begin s user of
           Done c \<Rightarrow> state_of c | Await s' \<Rightarrow> s')"
proof (cases user)
  case None
  with assms(1,2) show ?thesis
    by (auto simp: onAuthStateChanged_begin_def page_inv_def authRegistered_def listening_def
        not_ready_def)
next
  case (Some uid)
  from assms(1,2) obtain old where "userIdDisplay s = Some old" and "db s \<noteq> None"
    by (auto simp: page_inv_def)
  with assms Some show ?thesis
    by (auto simp: onAuthStateChanged_begin_def setupRealtimeListener_def page_inv_def
        authRegistered_def listening_def not_ready_def)
qed

lemma page_inv_fire:
  assumes "page_inv s" and "fire s ev = Some s'"
  shows "page_inv s'"
proof (cases ev)
  case (Load r)
  with assms show ?thesis
    by (auto split: if_splits intro: page_inv_onDOMContentLoaded)
next
  case (Typed v)
  have "same_base s (s\<lparr>taskInput := v\<rparr>)"
    by (simp add: same_base_def listening_def)
  with assms Typed show ?thesis
    by (auto intro: page_inv_same_base)
next
  case (AddRequested now)
  with assms show ?thesis
    by (auto split: if_splits
        intro: page_inv_same_base [OF _ same_base_addTask_begin] simp: taskList_addTask_begin)
next
  case (AddSettled r)
  with assms show ?thesis
    by (auto split: if_splits
        intro: page_inv_same_base [OF _ same_base_addTask_resume] simp: taskList_addTask_resume)
next
  case (RemoveClicked i)
  with assms show ?thesis
    by (auto split: if_splits
        intro: page_inv_same_base [OF _ same_base_removeButton_onclick_begin]
        simp: taskList_removeButton_onclick_begin)
next
  case (RemoveSettled r)
  with assms show ?thesis
    by (auto split: if_splits
        intro: page_inv_same_base [OF _ same_base_removeButton_onclick_resume]
        simp: taskList_removeButton_onclick_resume)
next
  case (AuthState user)
  with assms show ?thesis
    by (auto split: if_splits intro: page_inv_onAuthStateChanged_begin)
next
  case (SignInSettled r)
  with assms show ?thesis
    by (auto split: if_splits
        intro: page_inv_same_base [OF _ same_base_onAuthStateChanged_resume]
        simp: taskList_onAuthStateChanged_resume)
next
  case (Snapshot snapshot)
  with assms show ?thesis
    by (auto split: if_splits intro: page_inv_same_base [OF _ same_base_onSnapshot_next])
next
  case (SnapshotFailed e)
  with assms show ?thesis
    by (auto split: if_splits intro: page_inv_same_base [OF _ same_base_onSnapshot_error])
next
  case TimerFired
  with assms show ?thesis
    by (auto split: list.splits
        intro: page_inv_same_base [OF _ same_base_onTimeout] simp: taskList_onTimeout)
qed

lemma page_inv_initial: "initial s \<Longrightarrow> page_inv s"
  by (simp add: initial_def page_inv_def authRegistered_def listening_def)

lemma page_inv_run: "page_inv s \<Longrightarrow> run s evs = Some s' \<Longrightarrow> page_inv s'"
proof (induction evs arbitrary: s)
  case Nil
  then show ?case by simp
next
  case (Cons ev evs)
  then show ?case
    by (auto split: option.splits dest: page_inv_fire)
qed

lemma run_append:
  "run s (evs @ evs') = (case run s evs of None \<Rightarrow> None | Some t \<Rightarrow> run t evs')"
  by (induction evs arbitrary: s) (simp_all split: option.split)

text \<open>Where there is a Remove button, the store is ready and the message box exists.\<close>

lemma button_ready:
  assumes "initial s0" and "run s0 evs = Some s" and "taskList s \<noteq> []"
  shows "\<not> not_ready s" and "messageBox s \<noteq> None" and "listening s"
proof -
  from assms(1,2) have "page_inv s"
    by (auto intro: page_inv_run page_inv_initial)
  with assms(3) show "\<not> not_ready s" and "messageBox s \<noteq> None" and "listening s"
    by (auto simp: page_inv_def not_ready_def)
qed

lemma fire_keeps_base:
  assumes "\<not> is_AuthState ev" and "fire s ev = Some s'"
  shows "userId s' = userId s" and "listening s' = listening s"
    and "filter is_SignIn (authCalls s') = filter is_SignIn (authCalls s)"
proof -
  have "userId s' = userId s \<and> listening s' = listening s \<and>
      filter is_SignIn (authCalls s') = filter is_SignIn (authCalls s)"
  proof (cases ev)
    case (Load r)
    with assms(2) show ?thesis
      by (cases r)
        (auto simp: onDOMContentLoaded_def initializeAppAndAuth_def
          initializeAppAndAuth_catch_def listening_def showMessage_frame showMessage_frame2
          split: if_splits)
  next
    case (Typed v)
    with assms(2) show ?thesis
      by (auto simp: listening_def)
  next
    case (AddRequested now)
    with assms(2) same_base_addTask_begin [of s now] show ?thesis
      by (auto simp: same_base_def split: if_splits)
  next
    case (AddSettled r)
    with assms(2) same_base_addTask_resume [of s r] show ?thesis
      by (auto simp: same_base_def split: if_splits)
  next
    case (RemoveClicked i)
    with assms(2)
      same_base_removeButton_onclick_begin [of s "btn_onclick (li_button (taskList s ! i))"]
    show ?thesis
      by (auto simp: same_base_def split: if_splits)
  next
    case (RemoveSettled r)
    with assms(2) same_base_removeButton_onclick_resume [of s r] show ?thesis
      by (auto simp: same_base_def split: if_splits)
  next
    case (AuthState user)
    with assms(1) show ?thesis
      by simp
  next
    case (SignInSettled r)
    with assms(2) same_base_onAuthStateChanged_resume [of s r] show ?thesis
      by (auto simp: same_base_def split: if_splits)
  next
    case (Snapshot snapshot)
    with assms(2) same_base_onSnapshot_next [of s snapshot] show ?thesis
      by (auto simp: same_base_def split: if_splits)
  next
    case (SnapshotFailed e)
    with assms(2) same_base_onSnapshot_error [of s e] show ?thesis
      by (auto simp: same_base_def split: if_splits)
  next
    case TimerFired
    with assms(2) show ?thesis
      using same_base_onTimeout [of s]
      by (auto simp: same_base_def split: list.splits)
  qed
  then show "userId s' = userId s" and "listening s' = listening s"
    and "filter is_SignIn (authCalls s') = filter is_SignIn (authCalls s)"
    by simp_all
qed


lemma listening_fire: "listening s \<Longrightarrow> fire s ev = Some s' \<Longrightarrow> listening s'"
proof (cases "is_AuthState ev")
  case False
  assume "listening s" "fire s ev = Some s'"
  with fire_keeps_base(2) [OF False] show ?thesis
    by simp
next
  case True
  assume "listening s" "fire s ev = Some s'"
  with True show ?thesis
    by (cases ev)
      (auto simp: onAuthStateChanged_begin_def setupRealtimeListener_def listening_def
        split: if_splits option.splits)
qed

lemma listening_run: "listening s \<Longrightarrow> run s evs = Some s' \<Longrightarrow> listening s'"
proof (induction evs arbitrary: s)
  case Nil
  then show ?case by simp
next
  case (Cons ev evs)
  then show ?case
    by (auto split: option.splits dest: listening_fire)
qed

text \<open>Where a listener is registered, the store is ready and the message box exists.\<close>

lemma listening_ready:
  assumes "initial s0" and "run s0 evs = Some s" and "listening s"
  shows "\<not> not_ready s" and "messageBox s \<noteq> None"
proof -
  from assms(1,2) have "page_inv s"
    by (auto intro: page_inv_run page_inv_initial)
  with assms(3) show "\<not> not_ready s" and "messageBox s \<noteq> None"
    by (auto simp: page_inv_def not_ready_def)
qed

subsection \<open>Runs of the example page\<close>

lemma initial_page: "initial page"
  by (simp add: initial_def page_def)

lemma run_init_failed:
  "run page [Load (GetFirestoreThrows (js ''projectId not provided''))] = Some init_failed"
  by (simp add: page_def init_failed_def onDOMContentLoaded_def initializeAppAndAuth_def
      initializeAppAndAuth_catch_def showMessage_def)

lemma run_signed_out: "run page [Load InitOk] = Some signed_out"
  by (simp add: page_def signed_out_def onDOMContentLoaded_def initializeAppAndAuth_def
      new_box_def hidden_box_def)

lemma fire_signed_out_snapshot:
  "fire signed_out (AuthState (Some (js ''u1''))) =
     Some (signed_out
       \<lparr>userId := Some (js ''u1''),
        isAuthReady := True,
        userIdDisplay := Some (js ''User ID: <strong>u1</strong>''),
        calls := [OnSnapshot (js ''artifacts/default-app-id/users/u1/tasks'')]\<rparr>)"
  by (simp add: signed_out_def authRegistered_def onAuthStateChanged_begin_def
      setupRealtimeListener_def not_ready_def tasksPath_def js_def)

lemma run_listed:
  "run page [Load InitOk, AuthState (Some (js ''u1'')),
     Snapshot [\<lparr>doc_id = js ''t1'', doc_text = js ''buy milk'', doc_createdAt = 7\<rparr>]] =
   Some listed"
proof -
  have "run signed_out [AuthState (Some (js ''u1'')),
     Snapshot [\<lparr>doc_id = js ''t1'', doc_text = js ''buy milk'', doc_createdAt = 7\<rparr>]] =
     Some listed"
    unfolding run.simps fire_signed_out_snapshot
    by (simp add: listed_def signed_out_def listening_def onSnapshot_next_def showMessage_def
        task_of_def createTaskElement_def hidden_box_def decimal.simps)
      (simp add: js_def)
  moreover have "run page ([Load InitOk] @ [AuthState (Some (js ''u1'')),
     Snapshot [\<lparr>doc_id = js ''t1'', doc_text = js ''buy milk'', doc_createdAt = 7\<rparr>]]) =
     run signed_out [AuthState (Some (js ''u1'')),
     Snapshot [\<lparr>doc_id = js ''t1'', doc_text = js ''buy milk'', doc_createdAt = 7\<rparr>]]"
    by (simp only: run_append run_signed_out option.case)
  ultimately show ?thesis
    by (simp only: append_Cons append_Nil)
qed


subsection \<open>The items of a snapshot and the reports of errors\<close>

lemma insort_key_task_of:
  "insort_key createdAt (task_of d) (map task_of ds) =
   map task_of (insort_key doc_createdAt d ds)"
  by (induction ds) (simp_all add: task_of_def)

lemma sort_key_task_of:
  "sort_key createdAt (map task_of ds) = map task_of (sort_key doc_createdAt ds)"
  by (induction ds) (simp_all add: insort_key_task_of)

lemma taskList_onSnapshot_next_items:
  "taskList (state_of (onSnapshot_next s snapshot)) =
     map (\<lambda>d. \<lparr>data_doc_id = doc_id d, li_textContent = doc_text d,
                li_button = \<lparr>btn_textContent = js ''Remove'',
                             btn_className = js ''remove-btn'',
                             btn_onclick = doc_id d\<rparr>\<rparr>)
       (sort_key doc_createdAt snapshot)"
  by (simp add: taskList_onSnapshot_next sort_key_task_of createTaskElement_def task_of_def)

lemma shown_error:
  "messageBox s \<noteq> None \<Longrightarrow>
   \<exists>s'. showMessage s msg True = Returned s' \<and> displays_error s' msg"
  using showMessage_error_shown [of s _ msg] by auto

lemma removeButton_onclick_resume_rejected:
  assumes "messageBox s \<noteq> None"
  shows "\<exists>s1. removeButton_onclick_resume s (Rejected e) = Returned s1
           \<and> displays_error s1 (js ''Failed to remove task. Check console for details.'')
           \<and> calls s1 = calls s \<and> taskList s1 = taskList s"
proof -
  let ?t = "s\<lparr>console := console s @ [ConsoleError (js ''Error removing document: '') e]\<rparr>"
  let ?msg = "js ''Failed to remove task. Check console for details.''"
  from assms have "messageBox ?t \<noteq> None"
    by simp
  from shown_error [OF this, of ?msg] obtain s1
    where s1: "showMessage ?t ?msg True = Returned s1" "displays_error s1 ?msg"
    by blast
  from showMessage_frame(1,3) [of ?t ?msg True] s1(1)
  have "calls s1 = calls s" "taskList s1 = taskList s"
    by simp_all
  with s1 show ?thesis
    by (simp add: removeButton_onclick_resume_def)
qed


section \<open>The snapshot handler\<close>

text \<open>
  Claim C1. Whatever the page held before, the snapshot handler leaves as the children of
  the task list one item for each document of the snapshot and nothing else, in ascending
  order of \<open>createdAt\<close> (the documents shown are a sorted rearrangement of those of the
  snapshot): the item of a document carries the document's id as \<open>data-doc-id\<close>, its text
  as content, and a Remove button whose handler holds the document's id. Documents with
  the time stamps 5, 1, 3 are shown in the order 1, 3, 5; and after the snapshots
  \<open>[A, B]\<close> and \<open>[A]\<close> the list holds the item of \<open>A\<close> and nothing else. This holds also
  when the message that follows cannot be shown: the list is rebuilt before
  \<open>showMessage\<close> is called.
\<close>

theorem snapshot_replaces_view:
  "taskList (state_of (onSnapshot_next s snapshot)) =
     map (\<lambda>d. \<lparr>data_doc_id = doc_id d, li_textContent = doc_text d,
                li_button = \<lparr>btn_textContent = js ''Remove'',
                             btn_className = js ''remove-btn'',
                             btn_onclick = doc_id d\<rparr>\<rparr>)
       (sort_key doc_createdAt snapshot)
   \<and> sorted (map doc_createdAt (sort_key doc_createdAt snapshot))
   \<and> mset (sort_key doc_createdAt snapshot) = mset snapshot
   \<and> map data_doc_id (taskList (state_of (onSnapshot_next s snapshot))) =
       map doc_id (sort_key doc_createdAt snapshot)
   \<and> map li_textContent (taskList (state_of (onSnapshot_next s snapshot))) =
       map doc_text (sort_key doc_createdAt snapshot)
   \<and> map (\<lambda>el. btn_onclick (li_button el)) (taskList (state_of (onSnapshot_next s snapshot))) =
       map doc_id (sort_key doc_createdAt snapshot)
   \<and> map data_doc_id (taskList (state_of (onSnapshot_next s
        [\<lparr>doc_id = i5, doc_text = x5, doc_createdAt = 5\<rparr>,
         \<lparr>doc_id = i1, doc_text = x1, doc_createdAt = 1\<rparr>,
         \<lparr>doc_id = i3, doc_text = x3, doc_createdAt = 3\<rparr>]))) = [i1, i3, i5]
   \<and> map li_textContent (taskList (state_of (onSnapshot_next s
        [\<lparr>doc_id = i5, doc_text = x5, doc_createdAt = 5\<rparr>,
         \<lparr>doc_id = i1, doc_text = x1, doc_createdAt = 1\<rparr>,
         \<lparr>doc_id = i3, doc_text = x3, doc_createdAt = 3\<rparr>]))) = [x1, x3, x5]
   \<and> taskList (state_of (onSnapshot_next (state_of (onSnapshot_next s [A, B])) [A])) =
       [\<lparr>data_doc_id = doc_id A, li_textContent = doc_text A,
         li_button = \<lparr>btn_textContent = js ''Remove'', btn_className = js ''remove-btn'',
                      btn_onclick = doc_id A\<rparr>\<rparr>]"
proof -
  have ordered: "sort_key doc_createdAt
        [\<lparr>doc_id = i5, doc_text = x5, doc_createdAt = 5\<rparr>,
         \<lparr>doc_id = i1, doc_text = x1, doc_createdAt = 1\<rparr>,
         \<lparr>doc_id = i3, doc_text = x3, doc_createdAt = 3\<rparr>] =
        [\<lparr>doc_id = i1, doc_text = x1, doc_createdAt = 1\<rparr>,
         \<lparr>doc_id = i3, doc_text = x3, doc_createdAt = 3\<rparr>,
         \<lparr>doc_id = i5, doc_text = x5, doc_createdAt = 5\<rparr>]"
    by simp
  show ?thesis
    unfolding taskList_onSnapshot_next_items ordered
    by (simp add: comp_def)
qed

text \<open>
  Claim C10. The list the snapshot handler leaves depends on the snapshot alone: from any
  two states, equal snapshots give equal lists.
\<close>

theorem snapshot_view_deterministic:
  "taskList (state_of (onSnapshot_next s1 snapshot)) =
   taskList (state_of (onSnapshot_next s2 snapshot))"
  by (simp add: taskList_onSnapshot_next)

section \<open>addTask\<close>

text \<open>
  In every state, \<open>addTask\<close> on an input that is empty after trimming completes as the
  report "Please enter a task." does, without waiting for any request; the trace of store
  requests, the task list and the input field are as before; and where the message box
  exists the message is visible in the error style. The inputs \<open>""\<close> and three spaces
  are empty after trimming.
\<close>

lemma addTask_blank_reports:
  assumes blank: "trim (taskInput s) = []"
  shows "addTask_begin s now = Done (showMessage s (js ''Please enter a task.'') True)
       \<and> addTask s now r = showMessage s (js ''Please enter a task.'') True
       \<and> calls (state_of (addTask s now r)) = calls s
       \<and> taskList (state_of (addTask s now r)) = taskList s
       \<and> taskInput (state_of (addTask s now r)) = taskInput s
       \<and> (messageBox s \<noteq> None \<longrightarrow>
            displays_error (state_of (addTask s now r)) (js ''Please enter a task.''))
       \<and> trim [] = [] \<and> trim (js ''   '') = []"
proof -
  have first: "addTask_begin s now = Done (showMessage s (js ''Please enter a task.'') True)"
    using blank by (simp add: addTask_begin_def)
  have whole: "addTask s now r = showMessage s (js ''Please enter a task.'') True"
    using blank by (rule addTask_blank)
  have shown: "messageBox s \<noteq> None \<longrightarrow>
      displays_error (state_of (addTask s now r)) (js ''Please enter a task.'')"
  proof
    assume "messageBox s \<noteq> None"
    then obtain mb where "messageBox s = Some mb" by auto
    from showMessage_error_shown [OF this, of "js ''Please enter a task.''"]
    show "displays_error (state_of (addTask s now r)) (js ''Please enter a task.'')"
      by (auto simp: whole)
  qed
  have lits: "trim [] = []" "trim (js ''   '') = []"
    by (simp_all add: trim_def isWhiteSpace_def js_def)
  from first whole shown lits show ?thesis
    by (simp add: showMessage_frame)
qed

text \<open>
  Claim C2 fails on the page whose initialisation threw. \<open>initializeAppAndAuth\<close> creates
  the message box inside its \<open>try\<close>, after the three calls into the SDK; when one of them
  throws (here \<open>getFirestore\<close>) the box is never created, and \<open>showMessage\<close>, which even
  the \<open>catch\<close> block calls, throws a TypeError at its first statement. The listeners of
  the Add button are attached all the same. With three spaces typed, \<open>addTask\<close> then
  throws that TypeError, its promise is rejected, and no validation error is shown. No
  request is made, as the claim says.
\<close>

theorem addTask_blank_throws_without_message_box:
  "initial page
   \<and> run page [Load (GetFirestoreThrows (js ''projectId not provided'')),
        Typed (js ''   '')] = Some (init_failed\<lparr>taskInput := js ''   ''\<rparr>)
   \<and> trim (taskInput (init_failed\<lparr>taskInput := js ''   ''\<rparr>)) = []
   \<and> addTask (init_failed\<lparr>taskInput := js ''   ''\<rparr>) 7 Resolved =
       Thrown TypeError (init_failed\<lparr>taskInput := js ''   ''\<rparr>)
   \<and> \<not> displays_error (state_of (addTask (init_failed\<lparr>taskInput := js ''   ''\<rparr>) 7 Resolved))
         (js ''Please enter a task.'')"
proof -
  let ?s = "init_failed\<lparr>taskInput := js ''   ''\<rparr>"
  have "run page ([Load (GetFirestoreThrows (js ''projectId not provided''))] @
      [Typed (js ''   '')]) = Some ?s"
    by (simp only: run_append run_init_failed option.case) simp
  then have trace: "run page [Load (GetFirestoreThrows (js ''projectId not provided'')),
      Typed (js ''   '')] = Some ?s"
    by (simp only: append_Cons append_Nil)
  have blank: "trim (taskInput ?s) = []"
    by (simp add: trim_def isWhiteSpace_def js_def)
  have nobox: "messageBox ?s = None"
    by (simp add: init_failed_def page_def)
  have thrown: "addTask ?s 7 Resolved = Thrown TypeError ?s"
    by (simp add: addTask_blank [OF blank] showMessage_def nobox)
  have "\<not> displays_error ?s (js ''Please enter a task.'')"
    by (simp add: displays_error_def nobox)
  with initial_page trace blank thrown show ?thesis
    by simp
qed

text \<open>
  Claim C3, as stated, fails before sign-in: with "buy milk" typed and no user id,
  \<open>addTask\<close> hands no request to the store.
\<close>

theorem addTask_not_ready_counterexample:
  "trim (taskInput (signed_out\<lparr>taskInput := js ''buy milk''\<rparr>)) = js ''buy milk''
   \<and> calls (state_of (addTask (signed_out\<lparr>taskInput := js ''buy milk''\<rparr>) 7 Resolved)) = []"
  by (simp add: calls_addTask not_ready_def signed_out_def trim_def isWhiteSpace_def js_def)

text \<open>
  Claim C3, amended. Once the Firestore handle and the user id are there, \<open>addTask\<close> on
  an input that is not empty after trimming makes exactly one \<open>addDoc\<close> request, on the
  user's tasks collection, with the trimmed text and the current time; it then waits for
  the store. Neither half of the handler touches the task list, and resuming it, in
  whatever state, makes no further request.
\<close>

theorem addTask_forwards_one_create:
  assumes ready: "\<not> not_ready s" and nonblank: "trim (taskInput s) \<noteq> []"
  shows "addTask_begin s now =
           Await (s\<lparr>calls := calls s @ [AddDoc (tasksPath s) (trim (taskInput s)) now]\<rparr>)
       \<and> calls (state_of (addTask_resume s' r)) = calls s'
       \<and> taskList (state_of (addTask_resume s' r)) = taskList s'
       \<and> calls (state_of (addTask s now r)) =
           calls s @ [AddDoc (tasksPath s) (trim (taskInput s)) now]
       \<and> taskList (state_of (addTask s now r)) = taskList s"
proof -
  have "addTask_begin s now =
      Await (s\<lparr>calls := calls s @ [AddDoc (tasksPath s) (trim (taskInput s)) now]\<rparr>)"
    using ready nonblank by (simp add: addTask_begin_def)
  moreover have "calls (state_of (addTask_resume s' r)) = calls s'"
    and "taskList (state_of (addTask_resume s' r)) = taskList s'"
    by (cases r; simp add: addTask_resume_def showMessage_frame)+
  moreover have "calls (state_of (addTask s now r)) =
      calls s @ [AddDoc (tasksPath s) (trim (taskInput s)) now]"
    using ready nonblank by (simp add: calls_addTask)
  ultimately show ?thesis
    by (simp add: taskList_addTask)
qed

text \<open>Claim C3, amended, at the signed-in page with " buy milk " typed.\<close>

theorem addTask_forwards_one_create_witness:
  "\<not> not_ready (signed_in\<lparr>taskInput := js '' buy milk ''\<rparr>)
   \<and> trim (taskInput (signed_in\<lparr>taskInput := js '' buy milk ''\<rparr>)) = js ''buy milk''
   \<and> calls (state_of (addTask (signed_in\<lparr>taskInput := js '' buy milk ''\<rparr>) 7 Resolved)) =
       [AddDoc (js ''artifacts/default-app-id/users/u1/tasks'') (js ''buy milk'') 7]
   \<and> taskList (state_of (addTask (signed_in\<lparr>taskInput := js '' buy milk ''\<rparr>) 7 Resolved)) = []"
proof -
  let ?s = "signed_in\<lparr>taskInput := js '' buy milk ''\<rparr>"
  have ready: "\<not> not_ready (signed_in\<lparr>taskInput := js '' buy milk ''\<rparr>)"
    by (simp add: not_ready_def signed_in_def signed_out_def js_def)
  have trimmed: "trim (taskInput (signed_in\<lparr>taskInput := js '' buy milk ''\<rparr>)) = js ''buy milk''"
    by (simp add: trim_def isWhiteSpace_def js_def)
  have ne: "trim (taskInput (signed_in\<lparr>taskInput := js '' buy milk ''\<rparr>)) \<noteq> []"
    unfolding trimmed by (simp add: js_def)
  have path: "tasksPath (signed_in\<lparr>taskInput := js '' buy milk ''\<rparr>) =
      js ''artifacts/default-app-id/users/u1/tasks''"
    by (simp add: tasksPath_def signed_in_def signed_out_def js_def)
  have page: "calls ?s = []" "taskList ?s = []"
    by (simp_all add: signed_in_def signed_out_def)
  note claim = addTask_forwards_one_create [OF ready ne, where now = 7 and r = Resolved]
  from claim have "calls (state_of (addTask ?s 7 Resolved)) =
      calls ?s @ [AddDoc (tasksPath ?s) (trim (taskInput ?s)) 7]"
    and "taskList (state_of (addTask ?s 7 Resolved)) = taskList ?s"
    by blast+
  with ready trimmed path page show ?thesis
    by simp
qed

section \<open>Failures of the store\<close>

text \<open>
  In every state, neither \<open>addTask\<close> nor the click handler of a Remove button changes the
  task list. When the store is not available (the guard \<open>!db || !userId\<close> holds) each of
  them completes as the report "Database is not ready. Please wait." does; when the store
  rejects the request, \<open>addTask\<close> completes as the report "Failed to add task. Check
  console for details." and the click handler as "Failed to remove task. Check console
  for details.", after a line on the console. The input field keeps its content in these
  cases, and where the message box exists the message is visible in the error style.
\<close>

lemma store_failure_reports:
  "taskList (state_of (addTask s now r)) = taskList s
   \<and> taskList (state_of (removeButton_onclick s tid r)) = taskList s
   \<and> (trim (taskInput s) \<noteq> [] \<and> not_ready s \<longrightarrow>
        addTask s now r =
          showMessage s (js ''Database is not ready. Please wait.'') True
        \<and> taskInput (state_of (addTask s now r)) = taskInput s)
   \<and> (trim (taskInput s) \<noteq> [] \<and> \<not> not_ready s \<longrightarrow>
        addTask s now (Rejected e) =
          showMessage
            (s\<lparr>calls := calls s @ [AddDoc (tasksPath s) (trim (taskInput s)) now],
               console := console s @ [ConsoleError (js ''Error adding document: '') e]\<rparr>)
            (js ''Failed to add task. Check console for details.'') True
        \<and> taskInput (state_of (addTask s now (Rejected e))) = taskInput s)
   \<and> (not_ready s \<longrightarrow>
        removeButton_onclick s tid r =
          showMessage s (js ''Database is not ready. Please wait.'') True)
   \<and> (\<not> not_ready s \<longrightarrow>
        removeButton_onclick s tid (Rejected e) =
          showMessage
            (s\<lparr>calls := calls s @ [DeleteDoc (tasksPath s) tid],
               console := console s @ [ConsoleError (js ''Error removing document: '') e]\<rparr>)
            (js ''Failed to remove task. Check console for details.'') True)
   \<and> (messageBox s \<noteq> None \<longrightarrow>
        (trim (taskInput s) \<noteq> [] \<and> not_ready s \<longrightarrow>
           displays_error (state_of (addTask s now r))
             (js ''Database is not ready. Please wait.''))
      \<and> (trim (taskInput s) \<noteq> [] \<and> \<not> not_ready s \<longrightarrow>
           displays_error (state_of (addTask s now (Rejected e)))
             (js ''Failed to add task. Check console for details.''))
      \<and> (not_ready s \<longrightarrow>
           displays_error (state_of (removeButton_onclick s tid r))
             (js ''Database is not ready. Please wait.''))
      \<and> (\<not> not_ready s \<longrightarrow>
           displays_error (state_of (removeButton_onclick s tid (Rejected e)))
             (js ''Failed to remove task. Check console for details.'')))"
proof -
  have shown: "displays_error (state_of (showMessage s' msg True)) msg"
    if "messageBox s' \<noteq> None" for s' msg
  proof -
    from that obtain mb where "messageBox s' = Some mb" by auto
    from showMessage_error_shown [OF this, of msg] show ?thesis by auto
  qed
  have a: "trim (taskInput s) \<noteq> [] \<and> not_ready s \<longrightarrow>
        addTask s now r = showMessage s (js ''Database is not ready. Please wait.'') True
        \<and> taskInput (state_of (addTask s now r)) = taskInput s"
    by (simp add: addTask_not_ready showMessage_frame)
  have b: "trim (taskInput s) \<noteq> [] \<and> \<not> not_ready s \<longrightarrow>
        addTask s now (Rejected e) =
          showMessage
            (s\<lparr>calls := calls s @ [AddDoc (tasksPath s) (trim (taskInput s)) now],
               console := console s @ [ConsoleError (js ''Error adding document: '') e]\<rparr>)
            (js ''Failed to add task. Check console for details.'') True
        \<and> taskInput (state_of (addTask s now (Rejected e))) = taskInput s"
    by (simp add: addTask_rejected showMessage_frame)
  have c: "not_ready s \<longrightarrow>
        removeButton_onclick s tid r =
          showMessage s (js ''Database is not ready. Please wait.'') True"
    by (simp add: removeButton_onclick_not_ready)
  have d: "\<not> not_ready s \<longrightarrow>
        removeButton_onclick s tid (Rejected e) =
          showMessage
            (s\<lparr>calls := calls s @ [DeleteDoc (tasksPath s) tid],
               console := console s @ [ConsoleError (js ''Error removing document: '') e]\<rparr>)
            (js ''Failed to remove task. Check console for details.'') True"
    by (simp add: removeButton_onclick_rejected)
  have v: "messageBox s \<noteq> None \<longrightarrow>
        (trim (taskInput s) \<noteq> [] \<and> not_ready s \<longrightarrow>
           displays_error (state_of (addTask s now r))
             (js ''Database is not ready. Please wait.''))
      \<and> (trim (taskInput s) \<noteq> [] \<and> \<not> not_ready s \<longrightarrow>
           displays_error (state_of (addTask s now (Rejected e)))
             (js ''Failed to add task. Check console for details.''))
      \<and> (not_ready s \<longrightarrow>
           displays_error (state_of (removeButton_onclick s tid r))
             (js ''Database is not ready. Please wait.''))
      \<and> (\<not> not_ready s \<longrightarrow>
           displays_error (state_of (removeButton_onclick s tid (Rejected e)))
             (js ''Failed to remove task. Check console for details.''))"
    by (simp add: addTask_not_ready addTask_rejected removeButton_onclick_not_ready
        removeButton_onclick_rejected shown)
  from a b c d v show ?thesis
    by (simp only: taskList_addTask taskList_removeButton_onclick)
qed

text \<open>
  Claim C4 fails on the page whose initialisation threw, by the defect described at claim
  C2: the handle \<open>db\<close> is undefined, so the store is not available, and there is no
  message box. With "buy milk" typed, \<open>addTask\<close> takes the branch of the guard, calls
  \<open>showMessage\<close> and throws a TypeError: the error is not shown to the user. The task
  list is unchanged, as the claim says.
\<close>

theorem addTask_unavailable_throws_without_message_box:
  "run page [Load (GetFirestoreThrows (js ''projectId not provided'')),
        Typed (js ''buy milk'')] = Some (init_failed\<lparr>taskInput := js ''buy milk''\<rparr>)
   \<and> trim (taskInput (init_failed\<lparr>taskInput := js ''buy milk''\<rparr>)) = js ''buy milk''
   \<and> not_ready (init_failed\<lparr>taskInput := js ''buy milk''\<rparr>)
   \<and> addTask (init_failed\<lparr>taskInput := js ''buy milk''\<rparr>) 7 Resolved =
       Thrown TypeError (init_failed\<lparr>taskInput := js ''buy milk''\<rparr>)
   \<and> \<not> displays_error
         (state_of (addTask (init_failed\<lparr>taskInput := js ''buy milk''\<rparr>) 7 Resolved))
         (js ''Database is not ready. Please wait.'')
   \<and> taskList (state_of (addTask (init_failed\<lparr>taskInput := js ''buy milk''\<rparr>) 7 Resolved)) =
       taskList (init_failed\<lparr>taskInput := js ''buy milk''\<rparr>)"
proof -
  let ?s = "init_failed\<lparr>taskInput := js ''buy milk''\<rparr>"
  have "run page ([Load (GetFirestoreThrows (js ''projectId not provided''))] @
      [Typed (js ''buy milk'')]) = Some ?s"
    by (simp only: run_append run_init_failed option.case) simp
  then have trace: "run page [Load (GetFirestoreThrows (js ''projectId not provided'')),
      Typed (js ''buy milk'')] = Some ?s"
    by (simp only: append_Cons append_Nil)
  have typed: "trim (taskInput ?s) = js ''buy milk''"
    by (simp add: trim_def isWhiteSpace_def js_def)
  have nonblank: "trim (taskInput ?s) \<noteq> []"
    unfolding typed by (simp add: js_def)
  have gate: "not_ready ?s"
    by (simp add: not_ready_def init_failed_def page_def)
  have nobox: "messageBox ?s = None"
    by (simp add: init_failed_def page_def)
  have thrown: "addTask ?s 7 Resolved = Thrown TypeError ?s"
    by (simp add: addTask_not_ready [OF nonblank gate] showMessage_def nobox)
  have "\<not> displays_error ?s (js ''Database is not ready. Please wait.'')"
    by (simp add: displays_error_def nobox)
  with trace typed gate thrown show ?thesis
    by simp
qed

section \<open>Removing a task\<close>

text \<open>
  Claim C5. In every state the page can reach, a click on the Remove button of a list
  item makes exactly one \<open>deleteDoc\<close> request, for the id the handler holds, on the
  user's tasks collection. The handler looks the id up neither in the list nor in the
  collection: the id is whatever a snapshot delivered, whether or not the store still
  has the document. When the store resolves the request the handler returns with nothing
  reported, and only then; when the store rejects it the handler returns after showing
  "Failed to remove task. Check console for details." in the error style. The same holds
  when other handlers run between the click and the answer of the store. The guard of
  the handler never holds at a click: a Remove button exists only once a snapshot has
  arrived, the listener is registered only once \<open>db\<close> and \<open>userId\<close> are set, and
  neither is reset.
\<close>

theorem remove_click_one_delete:
  assumes start: "initial s0" and reach: "run s0 evs = Some s"
    and button: "el \<in> set (taskList s)"
  shows "removeButton_onclick_begin s (btn_onclick (li_button el)) =
           Await (s\<lparr>calls := calls s @
             [DeleteDoc (tasksPath s) (btn_onclick (li_button el))]\<rparr>)
       \<and> calls (state_of (removeButton_onclick s (btn_onclick (li_button el)) r)) =
           calls s @ [DeleteDoc (tasksPath s) (btn_onclick (li_button el))]
       \<and> removeButton_onclick s (btn_onclick (li_button el)) Resolved =
           Returned (s\<lparr>calls := calls s @
             [DeleteDoc (tasksPath s) (btn_onclick (li_button el))]\<rparr>)
       \<and> (\<exists>s1. removeButton_onclick s (btn_onclick (li_button el)) (Rejected e) = Returned s1
             \<and> displays_error s1 (js ''Failed to remove task. Check console for details.'')
             \<and> calls s1 = calls s @ [DeleteDoc (tasksPath s) (btn_onclick (li_button el))]
             \<and> taskList s1 = taskList s)
       \<and> (removeButton_onclick s (btn_onclick (li_button el)) r =
            Returned (s\<lparr>calls := calls s @
              [DeleteDoc (tasksPath s) (btn_onclick (li_button el))]\<rparr>))
           = (r = Resolved)
       \<and> (run s later = Some s' \<longrightarrow>
            removeButton_onclick_resume s' Resolved = Returned s'
            \<and> (\<exists>s1. removeButton_onclick_resume s' (Rejected e) = Returned s1
                  \<and> displays_error s1 (js ''Failed to remove task. Check console for details.'')
                  \<and> calls s1 = calls s' \<and> taskList s1 = taskList s'))"
proof -
  let ?tid = "btn_onclick (li_button el)"
  let ?t = "s\<lparr>calls := calls s @ [DeleteDoc (tasksPath s) ?tid]\<rparr>"
  from button have "taskList s \<noteq> []"
    by auto
  from button_ready [OF start reach this]
  have ready: "\<not> not_ready s" and box: "messageBox s \<noteq> None" and listen: "listening s"
    by simp_all
  have first: "removeButton_onclick_begin s ?tid = Await ?t"
    using ready by (simp add: removeButton_onclick_begin_def)
  have whole: "calls (state_of (removeButton_onclick s ?tid r)) =
      calls s @ [DeleteDoc (tasksPath s) ?tid]"
    using ready by (simp add: calls_removeButton_onclick)
  have resolved: "removeButton_onclick s ?tid Resolved = Returned ?t"
    using ready by (rule removeButton_onclick_resolved)
  have "messageBox ?t \<noteq> None"
    using box by simp
  from removeButton_onclick_resume_rejected [OF this, of e]
  have rejected: "\<exists>s1. removeButton_onclick s ?tid (Rejected e) = Returned s1
      \<and> displays_error s1 (js ''Failed to remove task. Check console for details.'')
      \<and> calls s1 = calls s @ [DeleteDoc (tasksPath s) ?tid]
      \<and> taskList s1 = taskList s"
    by (simp add: removeButton_onclick_def first)
  have differ: "removeButton_onclick s ?tid (Rejected x) \<noteq> Returned ?t" for x
  proof
    assume "removeButton_onclick s ?tid (Rejected x) = Returned ?t"
    then have "console (state_of (removeButton_onclick s ?tid (Rejected x))) = console s"
      by simp
    then show False
      using ready by (simp add: removeButton_onclick_rejected showMessage_frame)
  qed
  have iff: "(removeButton_onclick s ?tid r = Returned ?t) = (r = Resolved)"
    using resolved differ by (cases r) simp_all
  have later: "run s later = Some s' \<longrightarrow>
      removeButton_onclick_resume s' Resolved = Returned s'
      \<and> (\<exists>s1. removeButton_onclick_resume s' (Rejected e) = Returned s1
            \<and> displays_error s1 (js ''Failed to remove task. Check console for details.'')
            \<and> calls s1 = calls s' \<and> taskList s1 = taskList s')"
  proof
    assume after: "run s later = Some s'"
    then have "run s0 (evs @ later) = Some s'"
      by (simp add: run_append reach)
    moreover from listen after have "listening s'"
      by (rule listening_run)
    ultimately have "messageBox s' \<noteq> None"
      using start by (rule listening_ready(2) [rotated])
    from removeButton_onclick_resume_rejected [OF this, of e]
    show "removeButton_onclick_resume s' Resolved = Returned s'
      \<and> (\<exists>s1. removeButton_onclick_resume s' (Rejected e) = Returned s1
            \<and> displays_error s1 (js ''Failed to remove task. Check console for details.'')
            \<and> calls s1 = calls s' \<and> taskList s1 = taskList s')"
      by (simp add: removeButton_onclick_resume_def)
  qed
  from first whole resolved rejected iff later show ?thesis
    by blast
qed

text \<open>
  Claim C5 on the page that has loaded, signed user \<open>u1\<close> in and received a snapshot
  with the document \<open>t1\<close>.
\<close>

theorem remove_click_one_delete_witness:
  "initial page
   \<and> run page [Load InitOk, AuthState (Some (js ''u1'')),
        Snapshot [\<lparr>doc_id = js ''t1'', doc_text = js ''buy milk'', doc_createdAt = 7\<rparr>]] =
       Some listed
   \<and> map (\<lambda>el. btn_onclick (li_button el)) (taskList listed) = [js ''t1'']
   \<and> calls (state_of (removeButton_onclick listed (js ''t1'') Resolved)) =
       [OnSnapshot (js ''artifacts/default-app-id/users/u1/tasks''),
        DeleteDoc (js ''artifacts/default-app-id/users/u1/tasks'') (js ''t1'')]
   \<and> displays_error (state_of (removeButton_onclick listed (js ''t1'') (Rejected (js ''denied''))))
        (js ''Failed to remove task. Check console for details.'')"
proof -
  let ?el = "\<lparr>data_doc_id = js ''t1'', li_textContent = js ''buy milk'',
            li_button = \<lparr>btn_textContent = js ''Remove'', btn_className = js ''remove-btn'',
                         btn_onclick = js ''t1''\<rparr>\<rparr>"
  have button: "?el \<in> set (taskList listed)"
    by (simp add: listed_def)
  have ids: "map (\<lambda>el. btn_onclick (li_button el)) (taskList listed) = [js ''t1'']"
    by (simp add: listed_def)
  have page_calls: "calls listed = [OnSnapshot (js ''artifacts/default-app-id/users/u1/tasks'')]"
    by (simp add: listed_def)
  have path: "tasksPath listed = js ''artifacts/default-app-id/users/u1/tasks''"
    by (simp add: tasksPath_def listed_def signed_out_def js_def)
  note claim = remove_click_one_delete
    [OF initial_page run_listed button, where r = Resolved and e = "js ''denied''"]
  from claim have "calls (state_of (removeButton_onclick listed (js ''t1'') Resolved)) =
      calls listed @ [DeleteDoc (tasksPath listed) (js ''t1'')]"
    by simp
  moreover from claim
  obtain s1 where "removeButton_onclick listed (js ''t1'') (Rejected (js ''denied'')) = Returned s1"
    and "displays_error s1 (js ''Failed to remove task. Check console for details.'')"
    by auto
  ultimately show ?thesis
    using initial_page run_listed ids page_calls path by simp
qed

section \<open>Before sign-in\<close>

text \<open>
  Claim C6, as stated, fails for a blank input: on the loaded page, before the identity
  provider has called back, \<open>addTask\<close> with three spaces typed shows "Please enter a
  task.", not "Database is not ready. Please wait.": the text is tested before the store.
\<close>

theorem addTask_blank_before_sign_in_counterexample:
  "run page [Load InitOk, Typed (js ''   '')] = Some (signed_out\<lparr>taskInput := js ''   ''\<rparr>)
   \<and> userId (signed_out\<lparr>taskInput := js ''   ''\<rparr>) = None
   \<and> displays_error (state_of (addTask (signed_out\<lparr>taskInput := js ''   ''\<rparr>) 7 Resolved))
        (js ''Please enter a task.'')
   \<and> \<not> displays_error (state_of (addTask (signed_out\<lparr>taskInput := js ''   ''\<rparr>) 7 Resolved))
        (js ''Database is not ready. Please wait.'')"
proof -
  let ?s = "signed_out\<lparr>taskInput := js ''   ''\<rparr>"
  have "run page ([Load InitOk] @ [Typed (js ''   '')]) = Some ?s"
    by (simp only: run_append run_signed_out option.case) simp
  then have trace: "run page [Load InitOk, Typed (js ''   '')] = Some ?s"
    by (simp only: append_Cons append_Nil)
  have blank: "trim (taskInput ?s) = []"
    by (simp add: trim_def isWhiteSpace_def js_def)
  have box: "messageBox ?s = Some hidden_box"
    by (simp add: signed_out_def)
  have shown: "displays_error (state_of (addTask ?s 7 Resolved)) (js ''Please enter a task.'')"
    by (simp add: addTask_blank [OF blank] showMessage_def box displays_error_def)
  have "js ''Please enter a task.'' \<noteq> js ''Database is not ready. Please wait.''"
    by (simp add: js_def)
  then have "\<not> displays_error (state_of (addTask ?s 7 Resolved))
      (js ''Database is not ready. Please wait.'')"
    by (simp add: addTask_blank [OF blank] showMessage_def box displays_error_def)
  with trace shown show ?thesis
    by (simp add: signed_out_def)
qed

text \<open>
  Claim C6, amended. While the guard \<open>!db || !userId\<close> holds, and so in particular while
  there is no user id, no handler hands a request to the store: \<open>addTask\<close> and the click
  handler of a Remove button complete at once, and \<open>setupRealtimeListener\<close> writes a
  warning to the console and subscribes to nothing; the trace of store requests is the
  same after each of them. Where the script has created its message box, \<open>addTask\<close>
  shows "Database is not ready. Please wait." when the text is not empty after trimming
  and "Please enter a task." when it is, and the click handler shows "Database is not
  ready. Please wait.", each in the error style.
\<close>

theorem no_store_call_before_sign_in:
  assumes gate: "not_ready s"
  shows "addTask_begin s now =
           Done (showMessage s
             (if trim (taskInput s) = [] then js ''Please enter a task.''
              else js ''Database is not ready. Please wait.'') True)
       \<and> removeButton_onclick_begin s tid =
           Done (showMessage s (js ''Database is not ready. Please wait.'') True)
       \<and> setupRealtimeListener s =
           s\<lparr>console := console s @
             [ConsoleWarn (js ''Real-time listener skipped: DB or User ID not available.'')]\<rparr>
       \<and> calls (state_of (addTask s now r)) = calls s
       \<and> calls (state_of (removeButton_onclick s tid r)) = calls s
       \<and> calls (setupRealtimeListener s) = calls s
       \<and> (messageBox s \<noteq> None \<longrightarrow>
            displays_error (state_of (addTask s now r))
              (if trim (taskInput s) = [] then js ''Please enter a task.''
               else js ''Database is not ready. Please wait.'')
            \<and> displays_error (state_of (removeButton_onclick s tid r))
              (js ''Database is not ready. Please wait.''))
       \<and> (userId s' = None \<longrightarrow> not_ready s')"
proof -
  have shown: "messageBox s \<noteq> None \<longrightarrow>
      displays_error (state_of (addTask s now r))
        (if trim (taskInput s) = [] then js ''Please enter a task.''
         else js ''Database is not ready. Please wait.'')
      \<and> displays_error (state_of (removeButton_onclick s tid r))
        (js ''Database is not ready. Please wait.'')"
  proof
    assume box: "messageBox s \<noteq> None"
    have "displays_error (state_of (showMessage s msg True)) msg" for msg
      using shown_error [OF box, of msg] by auto
    then show "displays_error (state_of (addTask s now r))
        (if trim (taskInput s) = [] then js ''Please enter a task.''
         else js ''Database is not ready. Please wait.'')
      \<and> displays_error (state_of (removeButton_onclick s tid r))
        (js ''Database is not ready. Please wait.'')"
      using gate
      by (simp add: addTask_blank addTask_not_ready removeButton_onclick_not_ready)
  qed
  have rest: "addTask_begin s now =
           Done (showMessage s
             (if trim (taskInput s) = [] then js ''Please enter a task.''
              else js ''Database is not ready. Please wait.'') True)
       \<and> removeButton_onclick_begin s tid =
           Done (showMessage s (js ''Database is not ready. Please wait.'') True)
       \<and> setupRealtimeListener s =
           s\<lparr>console := console s @
             [ConsoleWarn (js ''Real-time listener skipped: DB or User ID not available.'')]\<rparr>
       \<and> calls (state_of (addTask s now r)) = calls s
       \<and> calls (state_of (removeButton_onclick s tid r)) = calls s
       \<and> calls (setupRealtimeListener s) = calls s
       \<and> (userId s' = None \<longrightarrow> not_ready s')"
    using gate
    by (simp add: addTask_begin_def removeButton_onclick_begin_def setupRealtimeListener_def
        calls_addTask calls_removeButton_onclick not_ready_def)
  from shown rest show ?thesis
    by blast
qed

text \<open>Claim C6, amended, at the loaded page before sign-in, with "buy milk" typed.\<close>

theorem no_store_call_before_sign_in_witness:
  "userId (signed_out\<lparr>taskInput := js ''buy milk''\<rparr>) = None
   \<and> not_ready (signed_out\<lparr>taskInput := js ''buy milk''\<rparr>)
   \<and> messageBox (signed_out\<lparr>taskInput := js ''buy milk''\<rparr>) \<noteq> None
   \<and> calls (state_of (addTask (signed_out\<lparr>taskInput := js ''buy milk''\<rparr>) 7 Resolved)) = []
   \<and> calls (state_of (removeButton_onclick (signed_out\<lparr>taskInput := js ''buy milk''\<rparr>)
        (js ''t1'') Resolved)) = []
   \<and> calls (setupRealtimeListener (signed_out\<lparr>taskInput := js ''buy milk''\<rparr>)) = []
   \<and> displays_error (state_of (addTask (signed_out\<lparr>taskInput := js ''buy milk''\<rparr>) 7 Resolved))
        (js ''Database is not ready. Please wait.'')"
proof -
  let ?s = "signed_out\<lparr>taskInput := js ''buy milk''\<rparr>"
  have at_page: "userId ?s = None" "calls ?s = []" "messageBox ?s \<noteq> None"
    by (simp_all add: signed_out_def)
  have gate: "not_ready ?s"
    by (simp add: not_ready_def at_page)
  have typed: "trim (taskInput ?s) \<noteq> []"
    by (simp add: trim_def isWhiteSpace_def js_def)
  note claim = no_store_call_before_sign_in
    [OF gate, where now = 7 and r = Resolved and tid = "js ''t1''"]
  from claim have "calls (state_of (addTask ?s 7 Resolved)) = calls ?s"
    and "calls (state_of (removeButton_onclick ?s (js ''t1'') Resolved)) = calls ?s"
    and "calls (setupRealtimeListener ?s) = calls ?s"
    by blast+
  moreover from claim at_page(3) typed
  have "displays_error (state_of (addTask ?s 7 Resolved))
      (js ''Database is not ready. Please wait.'')"
    by auto
  ultimately show ?thesis
    using at_page gate by simp
qed

section \<open>The input field\<close>

text \<open>
  Claim C9. After \<open>addTask\<close> the input field is empty exactly when the text was not blank,
  the store was ready and the store resolved the request; in every other case (blank
  text, store not ready, request rejected) it holds what it held. The first half of the
  handler never writes the field, and the second half writes it only when the request
  is resolved.
\<close>

theorem addTask_clears_input_only_on_success:
  "taskInput (state_of (addTask s now r)) =
     (if trim (taskInput s) \<noteq> [] \<and> \<not> not_ready s \<and> r = Resolved
      then [] else taskInput s)
   \<and> (case addTask_begin s now of
        Done c \<Rightarrow> taskInput (state_of c) = taskInput s
      | Await s1 \<Rightarrow> taskInput s1 = taskInput s)
   \<and> taskInput (state_of (addTask_resume s' r)) =
       (if r = Resolved then [] else taskInput s')"
proof -
  have "case addTask_begin s now of
        Done c \<Rightarrow> taskInput (state_of c) = taskInput s
      | Await s1 \<Rightarrow> taskInput s1 = taskInput s"
    by (simp add: addTask_begin_def Let_def showMessage_frame)
  moreover have "taskInput (state_of (addTask_resume s' r)) =
       (if r = Resolved then [] else taskInput s')"
    by (cases r) (simp_all add: addTask_resume_def showMessage_frame)
  ultimately show ?thesis
    by (simp only: taskInput_addTask)
qed

section \<open>Recovery after an error\<close>




section \<open>The documents addTask creates\<close>

lemma addTask_frame:
  "db (state_of (addTask s now r)) = db s"
  "userId (state_of (addTask s now r)) = userId s"
  "appId (state_of (addTask s now r)) = appId s"
  by (cases r; simp add: addTask_def addTask_begin_def addTask_resume_def Let_def
      showMessage_frame)+

lemma created_append: "created (cs @ ds) = created cs @ created ds"
  by (induction cs rule: created.induct) simp_all

lemma created_addTask:
  "created (calls (state_of (addTask s now r))) =
     (if trim (taskInput s) = [] \<or> not_ready s then created (calls s)
      else created (calls s) @ [(trim (taskInput s), now)])"
  by (simp add: calls_addTask created_append)

lemma addTasks_texts:
  "[] \<notin> fst ` set (created (calls s)) \<Longrightarrow>
   [] \<notin> fst ` set (created (calls (addTasks s es)))"
proof (induction es arbitrary: s)
  case Nil
  then show ?case by simp
next
  case (Cons ev es)
  obtain inp now r where ev: "ev = (inp, now, r)"
    by (cases ev)
  let ?s = "state_of (addTask (s\<lparr>taskInput := inp\<rparr>) now r)"
  have "[] \<notin> fst ` set (created (calls ?s))"
    using Cons.prems by (auto simp: created_addTask)
  from Cons.IH [OF this] show ?case
    by (simp add: ev)
qed

lemma addTasks_times:
  "sorted (map snd (created (calls s)) @ map (\<lambda>(inp, now, r). now) es) \<Longrightarrow>
   sorted (map snd (created (calls (addTasks s es))))"
proof (induction es arbitrary: s)
  case Nil
  then show ?case by simp
next
  case (Cons ev es)
  obtain inp now r where ev: "ev = (inp, now, r)"
    by (cases ev)
  let ?s = "state_of (addTask (s\<lparr>taskInput := inp\<rparr>) now r)"
  have "sorted (map snd (created (calls ?s)) @ map (\<lambda>(inp, now, r). now) es)"
    using Cons.prems by (auto simp: created_addTask ev sorted_append)
  from Cons.IH [OF this] show ?case
    by (simp add: ev)
qed

text \<open>
  Claim C8, as stated, fails when the clock steps back between two calls: the time stamp
  is the value of \<open>Date.now()\<close> at each call, and two additions made at the clock readings
  5 and 3 create documents with the time stamps 5 and 3, the earlier one greater.
\<close>

theorem addTask_times_counterexample:
  "map snd (created (calls (addTasks signed_in
      [(js ''first'', 5, Resolved), (js ''second'', 3, Resolved)]))) = [5, 3]
   \<and> \<not> sorted (map snd (created (calls (addTasks signed_in
      [(js ''first'', 5, Resolved), (js ''second'', 3, Resolved)]))))"
proof -
  have "map snd (created (calls (addTasks signed_in
      [(js ''first'', 5, Resolved), (js ''second'', 3, Resolved)]))) = [5, 3]"
    by (simp add: created_addTask addTask_frame not_ready_def signed_in_def
        signed_out_def trim_def isWhiteSpace_def js_def)
  then show ?thesis
    by simp
qed

text \<open>
  Claim C8, amended. Starting from a trace with no document created, every document that
  a sequence of \<open>addTask\<close> calls creates has a text that is not empty; the time stamp of
  each is the clock reading of its call, so the time stamps are in ascending order
  whenever the clock readings of the calls are. A single call creates at most one
  document, with the trimmed text and the clock reading.
\<close>

theorem addTask_text_nonempty_time_from_clock:
  assumes fresh: "created (calls s) = []"
  shows "[] \<notin> fst ` set (created (calls (addTasks s es)))
       \<and> (sorted (map (\<lambda>(inp, now, r). now) es) \<longrightarrow>
            sorted (map snd (created (calls (addTasks s es)))))
       \<and> created (calls (state_of (addTask s now r))) =
           (if trim (taskInput s) = [] \<or> not_ready s then []
            else [(trim (taskInput s), now)])"
  using addTasks_texts [of s es] addTasks_times [of s es] fresh
  by (simp add: created_addTask)

text \<open>
  Claim C8, amended, at the signed-in page: three calls at the clock readings 3, 4, 5,
  the second with a blank text, the third rejected by the store.
\<close>

theorem addTask_text_nonempty_time_from_clock_witness:
  "created (calls signed_in) = []
   \<and> sorted (map (\<lambda>(inp, now, r). now)
        [(js ''first'', 3::int, Resolved), (js ''   '', 4, Resolved),
         (js ''second'', 5, Rejected (js ''denied''))])
   \<and> [] \<notin> fst ` set (created (calls (addTasks signed_in
        [(js ''first'', 3::int, Resolved), (js ''   '', 4, Resolved),
         (js ''second'', 5, Rejected (js ''denied''))])))
   \<and> sorted (map snd (created (calls (addTasks signed_in
        [(js ''first'', 3::int, Resolved), (js ''   '', 4, Resolved),
         (js ''second'', 5, Rejected (js ''denied''))]))))"
proof -
  let ?es = "[(js ''first'', 3::int, Resolved), (js ''   '', 4, Resolved),
         (js ''second'', 5, Rejected (js ''denied''))]"
  have fresh: "created (calls signed_in) = []"
    by (simp add: signed_in_def signed_out_def)
  have clock: "sorted (map (\<lambda>(inp, now, r). now) ?es)"
    by simp
  from addTask_text_nonempty_time_from_clock [OF fresh, of ?es] clock fresh
  show ?thesis
    by blast
qed

end
